theory Spec2Isabelle
  imports Complex_Main
begin

section \<open>The CLEASE Au-Cu tutorial notebook as a program over an external toolkit\<close>

text \<open>
  The notebook \<^verbatim>\<open>CLEASE/part1_clease_script.ipynb\<close> is a sequence of code cells. Each cell
  calls into the CLEASE library, the ASE toolkit, numpy and the Python standard library and
  passes the values it gets back on to later calls. The cells are embedded as functions in
  a state-and-exception monad. The toolkit is a parameter \<open>env\<close> of every cell: it answers
  each call with a value or an exception and may change its own state (the structure
  database, the files, the library objects), of which the notebook sees nothing but the
  answers. Every call the notebook makes is appended, with its answer, to a trace.
\<close>

subsection \<open>Python values and exceptions\<close>

datatype error =
    AttributeError | KeyError | AssertionError | IndexError | ZeroDivisionError
  | TypeError | ValueError | NameError | LibraryError string

text \<open>
  A row of the ASE database (\<^verbatim>\<open>AtomsRow\<close>): the columns and key-value pairs the notebook
  documents (cells 18 and 22) and reads. A key that a row does not carry is \<open>None\<close>.
\<close>

record row =
  row_id :: nat
  natoms :: nat
  energy :: "real option"
  name :: "string option"
  formula_unit :: "string option"
  struct_type :: "string option"
  gen :: "int option"
  converged :: "bool option"
  queued :: "bool option"
  started :: "bool option"
  final_struct_id :: "nat option"

datatype pyval =
    PNone
  | PBool bool
  | PInt int
  | PFloat real
  | PStr string
  | PList "pyval list"
  | PTuple "pyval list"
  | PDict "(string \<times> pyval) list"
  | PArray "real list"
  | PRow row
  | PObj nat
  | PExc error

text \<open>
  \<open>PArray\<close> is a numpy array of floats, \<open>PRow\<close> a row read from the database, \<open>PObj\<close>
  a reference to an object of a library (a settings object, an \<^verbatim>\<open>Atoms\<close> object, a
  calculator, an open file), \<open>PExc\<close> an exception as a value.

  A call of the notebook into code it does not own: a function or constructor call with
  positional and keyword arguments, a method call on an object, an attribute read, an
  attribute assignment, an import, an IPython shell escape (\<^verbatim>\<open>!cmd\<close>) or magic (\<^verbatim>\<open>%cmd\<close>).
\<close>

datatype call =
    Call string "pyval list" "(string \<times> pyval) list"
  | Method pyval string "pyval list" "(string \<times> pyval) list"
  | GetAttr pyval string
  | SetAttr pyval string pyval
  | Import string "string list"
  | Shell string
  | Magic string

type_synonym event = "call \<times> (error + pyval)"

type_synonym 'w env = "call \<Rightarrow> 'w \<Rightarrow> (error + pyval) \<times> 'w"

type_synonym ('w, 'a) nb = "'w \<times> event list \<Rightarrow> (error + 'a) \<times> ('w \<times> event list)"

subsection \<open>The monad: sequencing, exceptions, external calls, loops\<close>

definition ret :: "'a \<Rightarrow> ('w, 'a) nb" where
  "ret x = (\<lambda>s. (Inr x, s))"

definition raise :: "error \<Rightarrow> ('w, 'a) nb" where
  "raise e = (\<lambda>s. (Inl e, s))"

definition bnd :: "('w, 'a) nb \<Rightarrow> ('a \<Rightarrow> ('w, 'b) nb) \<Rightarrow> ('w, 'b) nb" where
  "bnd m f = (\<lambda>s. case m s of (Inl e, s') \<Rightarrow> (Inl e, s') | (Inr x, s') \<Rightarrow> f x s')"

definition seq :: "('w, 'a) nb \<Rightarrow> ('w, 'b) nb \<Rightarrow> ('w, 'b) nb" where
  "seq m n = bnd m (\<lambda>_. n)"

definition ext :: "'w env \<Rightarrow> call \<Rightarrow> ('w, pyval) nb" where
  "ext env c = (\<lambda>(w, tr). case env c w of (r, w') \<Rightarrow> (r, (w', tr @ [(c, r)])))"

text \<open>\<^verbatim>\<open>for x in xs: acc = body(x, acc)\<close>, stopping at the first exception.\<close>

primrec for_acc :: "'a list \<Rightarrow> ('a \<Rightarrow> 'b \<Rightarrow> ('w, 'b) nb) \<Rightarrow> 'b \<Rightarrow> ('w, 'b) nb" where
  "for_acc [] body acc = ret acc"
| "for_acc (x # xs) body acc = bnd (body x acc) (for_acc xs body)"


subsection \<open>Operations of the Python language the cells use themselves\<close>

text \<open>The items of an iterable value; \<open>None\<close> for a value that is not iterable.\<close>

definition py_items :: "pyval \<Rightarrow> pyval list option" where
  "py_items v = (case v of PList xs \<Rightarrow> Some xs | PTuple xs \<Rightarrow> Some xs
      | PArray xs \<Rightarrow> Some (map PFloat xs) | _ \<Rightarrow> None)"

text \<open>Iterating a value in a \<^verbatim>\<open>for\<close> statement.\<close>

definition py_iter :: "pyval \<Rightarrow> ('w, pyval list) nb" where
  "py_iter v = (case py_items v of None \<Rightarrow> raise TypeError | Some xs \<Rightarrow> ret xs)"

text \<open>\<^verbatim>\<open>a, b = v\<close>.\<close>

definition py_unpack2 :: "pyval \<Rightarrow> ('w, pyval \<times> pyval) nb" where
  "py_unpack2 v = (case py_items v of None \<Rightarrow> raise TypeError
      | Some [a, b] \<Rightarrow> ret (a, b) | Some _ \<Rightarrow> raise ValueError)"

text \<open>
  \<^verbatim>\<open>x / n\<close> on numbers (true division, the result is a float); a zero divisor raises.
\<close>

definition py_number :: "pyval \<Rightarrow> real option" where
  "py_number v = (case v of PFloat x \<Rightarrow> Some x | PInt i \<Rightarrow> Some (real_of_int i)
      | PBool b \<Rightarrow> Some (if b then 1 else 0) | _ \<Rightarrow> None)"

definition py_truediv :: "pyval \<Rightarrow> pyval \<Rightarrow> ('w, real) nb" where
  "py_truediv x n = (case (py_number x, py_number n) of
        (Some a, Some b) \<Rightarrow> if b = 0 then raise ZeroDivisionError else ret (a / b)
      | _ \<Rightarrow> raise TypeError)"

text \<open>\<^verbatim>\<open>xs[0]\<close> on a list.\<close>

definition py_first :: "'a list \<Rightarrow> ('w, 'a) nb" where
  "py_first xs = (case xs of [] \<Rightarrow> raise IndexError | x # _ \<Rightarrow> ret x)"






text \<open>
  \<^verbatim>\<open>a.argmin()\<close> of a numpy array: the index of the first occurrence of the least element;
  an empty array raises \<^verbatim>\<open>ValueError\<close>, a value that is no array has no such method.
\<close>

definition argmin_index :: "real list \<Rightarrow> nat" where
  "argmin_index xs = length (takeWhile (\<lambda>x. x \<noteq> Min (set xs)) xs)"

definition np_argmin :: "pyval \<Rightarrow> ('w, nat) nb" where
  "np_argmin a = (case a of
        PArray xs \<Rightarrow> if xs = [] then raise ValueError else ret (argmin_index xs)
      | _ \<Rightarrow> raise AttributeError)"

text \<open>\<^verbatim>\<open>a[i]\<close> for an index \<open>i \<ge> 0\<close>.\<close>

definition py_index :: "pyval \<Rightarrow> nat \<Rightarrow> ('w, pyval) nb" where
  "py_index a i = (case py_items a of None \<Rightarrow> raise TypeError
      | Some xs \<Rightarrow> if i < length xs then ret (xs ! i) else raise IndexError)"

subsection \<open>The cells, in the order of the notebook\<close>












text \<open>
  Cell 25, the evaluation of the model:
  \<^verbatim>\<open>
  %matplotlib notebook
  from clease import Evaluate
  import clease.plot_post_process as pp
  from pprint import pprint
  eva = Evaluate(settings=settings, fitting_scheme='l1', scoring_scheme='k-fold', nsplits=10)
  alphas, cvs = eva.alpha_CV(alpha_min=1E-7, alpha_max=1.0, num_alpha=50)
  pp.plot_cv(eva)
  idx = cvs.argmin()
  alpha = alphas[idx]
  eva.set_fitting_scheme(fitting_scheme='l1', alpha=alpha)
  eva.fit()
  eva.get_eci()
  pp.plot_fit(eva)
  pp.plot_convex_hull(eva)
  pp.plot_eci(eva)
  pprint(eva.get_eci_dict())
  eva.save_eci(fname='cluster_name_eci_l1.json')
  \<close>
\<close>

definition cell_25 :: "'w env \<Rightarrow> pyval \<Rightarrow> ('w, pyval) nb" where
  "cell_25 env settings =
     seq (ext env (Magic ''matplotlib notebook''))
    (seq (ext env (Import ''clease'' [''Evaluate'']))
    (seq (ext env (Import ''clease.plot_post_process'' []))
    (seq (ext env (Import ''pprint'' [''pprint'']))
    (bnd (ext env (Call ''Evaluate'' []
            [(''settings'', settings), (''fitting_scheme'', PStr ''l1''),
             (''scoring_scheme'', PStr ''k-fold''), (''nsplits'', PInt 10)])) (\<lambda>eva.
     bnd (ext env (Method eva ''alpha_CV'' []
            [(''alpha_min'', PFloat (1 / 10 ^ 7)), (''alpha_max'', PFloat 1),
             (''num_alpha'', PInt 50)])) (\<lambda>scan.
     bnd (py_unpack2 scan) (\<lambda>(alphas, cvs).
     seq (ext env (Call ''pp.plot_cv'' [eva] []))
    (bnd (np_argmin cvs) (\<lambda>idx.
     bnd (py_index alphas idx) (\<lambda>alpha.
     seq (ext env (Method eva ''set_fitting_scheme'' []
            [(''fitting_scheme'', PStr ''l1''), (''alpha'', alpha)]))
    (seq (ext env (Method eva ''fit'' [] []))
    (seq (ext env (Method eva ''get_eci'' [] []))
    (seq (ext env (Call ''pp.plot_fit'' [eva] []))
    (seq (ext env (Call ''pp.plot_convex_hull'' [eva] []))
    (seq (ext env (Call ''pp.plot_eci'' [eva] []))
    (bnd (ext env (Method eva ''get_eci_dict'' [] [])) (\<lambda>eci_dict.
     seq (ext env (Call ''pprint'' [eci_dict] []))
    (seq (ext env (Method eva ''save_eci'' [] [(''fname'', PStr ''cluster_name_eci_l1.json'')]))
    (ret eva)))))))))))))))))))"







subsection \<open>The minimum-energy selection cell (cell 37)\<close>

text \<open>
  \<^verbatim>\<open>
  for row in db.select('formula_unit=Au3Cu1,struct_type=initial'):
      energy = db.get(id=row.final_struct_id).energy
      energy /= row.natoms
      Au3Cu1.append((row.name, energy))
  \<close>
  The body of the loop, with the list built so far as accumulator.
\<close>

definition energy_per_atom_entry ::
  "'w env \<Rightarrow> pyval \<Rightarrow> pyval \<Rightarrow> (pyval \<times> real) list \<Rightarrow> ('w, (pyval \<times> real) list) nb" where
  "energy_per_atom_entry env db row acc =
     bnd (ext env (GetAttr row ''final_struct_id'')) (\<lambda>fid.
     bnd (ext env (Method db ''get'' [] [(''id'', fid)])) (\<lambda>final.
     bnd (ext env (GetAttr final ''energy'')) (\<lambda>energy.
     bnd (ext env (GetAttr row ''natoms'')) (\<lambda>n.
     bnd (py_truediv energy n) (\<lambda>energy.
     bnd (ext env (GetAttr row ''name'')) (\<lambda>nm.
     ret (acc @ [(nm, energy)])))))))"

text \<open>
  \<^verbatim>\<open>
  Au3Cu1 = []
  for row in db.select('formula_unit=Au3Cu1,struct_type=initial'): ...
  Au3Cu1.sort(key=lambda x: x[1])
  names.append(Au3Cu1[0][0])
  \<close>
  and the same for the two other formula units, which differ in the query string only.
  Python's \<^verbatim>\<open>list.sort\<close> is stable, as \<^const>\<open>sort_key\<close> is.
\<close>

definition min_energy_name :: "'w env \<Rightarrow> pyval \<Rightarrow> string \<Rightarrow> ('w, pyval) nb" where
  "min_energy_name env db query =
     bnd (ext env (Method db ''select'' [PStr query] [])) (\<lambda>rows.
     bnd (py_iter rows) (\<lambda>rows.
     bnd (for_acc rows (energy_per_atom_entry env db) []) (\<lambda>entries.
     bnd (py_first (sort_key snd entries)) (\<lambda>lowest.
     ret (fst lowest)))))"

text \<open>The first part of the cell, up to \<^verbatim>\<open>print(names)\<close>: the list \<^verbatim>\<open>names\<close>.\<close>

definition min_energy_names :: "'w env \<Rightarrow> pyval \<Rightarrow> ('w, pyval list) nb" where
  "min_energy_names env db =
     bnd (min_energy_name env db ''formula_unit=Au3Cu1,struct_type=initial'') (\<lambda>n1.
     bnd (min_energy_name env db ''formula_unit=Au1Cu1,struct_type=initial'') (\<lambda>n2.
     bnd (min_energy_name env db ''formula_unit=Au1Cu3,struct_type=initial'') (\<lambda>n3.
     ret ([] @ [n1] @ [n2] @ [n3]))))"

text \<open>
  \<^verbatim>\<open>
  for name in names:
      atoms = db.get('name={},struct_type=initial'.format(name)).toatoms()
      images.append(atoms)
  \<close>
\<close>

definition image_of_name :: "'w env \<Rightarrow> pyval \<Rightarrow> pyval \<Rightarrow> pyval list \<Rightarrow> ('w, pyval list) nb" where
  "image_of_name env db nm images =
     bnd (ext env (Method (PStr ''name={},struct_type=initial'') ''format'' [nm] [])) (\<lambda>q.
     bnd (ext env (Method db ''get'' [q] [])) (\<lambda>r.
     bnd (ext env (Method r ''toatoms'' [] [])) (\<lambda>atoms.
     ret (images @ [atoms]))))"

definition cell_37 :: "'w env \<Rightarrow> pyval \<Rightarrow> ('w, pyval list) nb" where
  "cell_37 env db =
     bnd (min_energy_names env db) (\<lambda>names.
     seq (ext env (Call ''print'' [PList names] []))
    (bnd (for_acc names (image_of_name env db) []) (\<lambda>images.
     seq (ext env (Call ''view'' [PList images] []))
    (ret names))))"

subsection \<open>The notebook, run from top to bottom\<close>


subsection \<open>What the claims about the database assume of the ASE toolkit\<close>

text \<open>
  The value a row carries under a key, as ASE's selection and attribute access see it.
\<close>

definition row_key :: "row \<Rightarrow> string \<Rightarrow> pyval option" where
  "row_key r k =
     (if k = ''id'' then Some (PInt (int (row_id r)))
      else if k = ''natoms'' then Some (PInt (int (natoms r)))
      else if k = ''energy'' then map_option PFloat (energy r)
      else if k = ''name'' then map_option PStr (name r)
      else if k = ''formula_unit'' then map_option PStr (formula_unit r)
      else if k = ''struct_type'' then map_option PStr (struct_type r)
      else if k = ''gen'' then map_option PInt (gen r)
      else if k = ''converged'' then map_option PBool (converged r)
      else if k = ''queued'' then map_option PBool (queued r)
      else if k = ''started'' then map_option PBool (started r)
      else if k = ''final_struct_id'' then map_option (\<lambda>i. PInt (int i)) (final_struct_id r)
      else None)"

text \<open>\<^verbatim>\<open>row.key\<close>: a key the row does not carry raises \<^verbatim>\<open>AttributeError\<close>.\<close>

definition row_attr :: "row \<Rightarrow> string \<Rightarrow> error + pyval" where
  "row_attr r k = (case row_key r k of None \<Rightarrow> Inl AttributeError | Some v \<Rightarrow> Inr v)"

text \<open>
  A selection is a list of \<open>key = value\<close> conditions, given as keyword arguments or as one
  query string \<^verbatim>\<open>'key=value,key=value'\<close> (the values of the notebook's query strings are
  words, which ASE compares as strings).
\<close>

fun split_on :: "char \<Rightarrow> string \<Rightarrow> string list" where
  "split_on c [] = [[]]"
| "split_on c (x # xs) =
     (if x = c then [] # split_on c xs
      else (case split_on c xs of [] \<Rightarrow> [[x]] | y # ys \<Rightarrow> (x # y) # ys))"

definition parse_query :: "string \<Rightarrow> (string \<times> pyval) list" where
  "parse_query q =
     map (\<lambda>kv. (takeWhile (\<lambda>c. c \<noteq> CHR ''='') kv, PStr (drop 1 (dropWhile (\<lambda>c. c \<noteq> CHR ''='') kv))))
       (split_on CHR '','' q)"

definition query_conds :: "pyval list \<Rightarrow> (string \<times> pyval) list \<Rightarrow> (string \<times> pyval) list option" where
  "query_conds pos kw =
     (case pos of [] \<Rightarrow> Some kw | [PStr q] \<Rightarrow> Some (parse_query q @ kw) | _ \<Rightarrow> None)"

definition row_matches :: "(string \<times> pyval) list \<Rightarrow> row \<Rightarrow> bool" where
  "row_matches conds r = list_all (\<lambda>(k, v). row_key r k = Some v) conds"

text \<open>\<^verbatim>\<open>db.select(...)\<close>: the matching rows, in the order of the database.\<close>

definition db_select :: "row list \<Rightarrow> (string \<times> pyval) list \<Rightarrow> error + pyval" where
  "db_select D conds = Inr (PList (map PRow (filter (row_matches conds) D)))"

text \<open>
  \<^verbatim>\<open>db.get(...)\<close>: the one matching row; \<^verbatim>\<open>KeyError\<close> when there is none, a failed
  assertion when there are several.
\<close>

definition db_get :: "row list \<Rightarrow> (string \<times> pyval) list \<Rightarrow> error + pyval" where
  "db_get D conds =
     (case filter (row_matches conds) D of
        [] \<Rightarrow> Inl KeyError
      | [r] \<Rightarrow> Inr (PRow r)
      | _ \<Rightarrow> Inl AssertionError)"

text \<open>
  A toolkit \<open>env\<close> serves the database that \<open>dbof\<close> reads off its state: \<^verbatim>\<open>select\<close>,
  \<^verbatim>\<open>get\<close> and the attributes of a row answer from that database and leave it as it is.
\<close>

definition ase_db :: "'w env \<Rightarrow> ('w \<Rightarrow> row list) \<Rightarrow> bool" where
  "ase_db env dbof \<longleftrightarrow>
     (\<forall>w h pos kw conds. query_conds pos kw = Some conds \<longrightarrow>
        fst (env (Method h ''select'' pos kw) w) = db_select (dbof w) conds \<and>
        dbof (snd (env (Method h ''select'' pos kw) w)) = dbof w \<and>
        fst (env (Method h ''get'' pos kw) w) = db_get (dbof w) conds \<and>
        dbof (snd (env (Method h ''get'' pos kw) w)) = dbof w) \<and>
     (\<forall>w r k.
        fst (env (GetAttr (PRow r) k) w) = row_attr r k \<and>
        dbof (snd (env (GetAttr (PRow r) k) w)) = dbof w)"

text \<open>
  The rows the selection cell reads for a formula unit, the energy of the final structure
  a row points to, and its energy per atom, where the database holds them.
\<close>

definition initial_rows :: "row list \<Rightarrow> string \<Rightarrow> row list" where
  "initial_rows D fu =
     filter (\<lambda>r. formula_unit r = Some fu \<and> struct_type r = Some ''initial'') D"

definition final_energy :: "row list \<Rightarrow> row \<Rightarrow> real option" where
  "final_energy D r =
     (case final_struct_id r of None \<Rightarrow> None
      | Some fid \<Rightarrow> (case filter (\<lambda>x. row_id x = fid) D of [f] \<Rightarrow> energy f | _ \<Rightarrow> None))"

definition energy_per_atom :: "row list \<Rightarrow> row \<Rightarrow> real option" where
  "energy_per_atom D r =
     (case final_energy D r of None \<Rightarrow> None
      | Some e \<Rightarrow> if natoms r = 0 then None else Some (e / real (natoms r)))"

text \<open>A row the cell can process: it has a name and an energy per atom.\<close>

definition calculated :: "row list \<Rightarrow> row \<Rightarrow> bool" where
  "calculated D r \<longleftrightarrow> name r \<noteq> None \<and> energy_per_atom D r \<noteq> None"

text \<open>
  A row with the lowest energy per atom among the rows the cell reads for a formula unit.
\<close>

definition lowest :: "row list \<Rightarrow> string \<Rightarrow> row \<Rightarrow> bool" where
  "lowest D fu r \<longleftrightarrow>
     r \<in> set (initial_rows D fu) \<and>
     (\<exists>e. energy_per_atom D r = Some e \<and>
        (\<forall>r' \<in> set (initial_rows D fu). \<forall>e'. energy_per_atom D r' = Some e' \<longrightarrow> e \<le> e'))"

text \<open>The entry \<^verbatim>\<open>(row.name, energy)\<close> the loop appends for a row it can process.\<close>

definition entry_of :: "row list \<Rightarrow> row \<Rightarrow> pyval \<times> real" where
  "entry_of D r =
     (case name r of None \<Rightarrow> PNone | Some n \<Rightarrow> PStr n,
      case energy_per_atom D r of None \<Rightarrow> 0 | Some e \<Rightarrow> e)"

subsection \<open>A small toolkit to run the cells on\<close>

text \<open>
  What the notebook documents of \<^verbatim>\<open>update_db\<close> (cell 22): the entry of the initial
  structure gets \<^verbatim>\<open>converged = True\<close>, loses \<^verbatim>\<open>started\<close> and \<^verbatim>\<open>queued\<close> and gets the id of
  a new entry as \<^verbatim>\<open>final_struct_id\<close>; the new entry holds the result of the calculation
  under the same name. The energy \<open>e\<close> of the result is a parameter.
\<close>

definition update_db_rows :: "nat \<Rightarrow> real \<Rightarrow> row list \<Rightarrow> error + row list" where
  "update_db_rows uid e D =
     (case filter (\<lambda>r. row_id r = uid) D of
        [r] \<Rightarrow>
          (let new_id = Suc (fold max (map row_id D) 0) in
           Inr (map (\<lambda>x. if row_id x = uid
                      then x\<lparr>converged := Some True, queued := None, started := None,
                             final_struct_id := Some new_id\<rparr>
                      else x) D
                @ [\<lparr>row_id = new_id, natoms = natoms r, energy = Some e, name = name r,
                    formula_unit = None, struct_type = Some ''final'', gen = None,
                    converged = None, queued = None, started = None,
                    final_struct_id = None\<rparr>]))
      | _ \<Rightarrow> Inl KeyError)"

text \<open>
  A toolkit over a database and a set of JSON files. It serves \<^verbatim>\<open>select\<close>, \<^verbatim>\<open>get\<close> and
  the attributes of rows as ASE does, updates the database as cell 22 documents (the
  energy of the structure with id \<open>i\<close> being \<open>- i\<close>), scans three regularisation
  strengths, saves and loads one fixed set of coefficients, fills the \<^verbatim>\<open>{}\<close> of a format
  string with strings, and answers \<^verbatim>\<open>None\<close> to every other call.
\<close>

definition toy_eci :: pyval where
  "toy_eci = PDict [(''c0'', PFloat (- 3)), (''c1_0'', PFloat (1 / 2))]"

fun fill :: "string \<Rightarrow> string list \<Rightarrow> string" where
  "fill (a # b # cs) (x # xs) =
     (if a = CHR ''{'' \<and> b = CHR ''}'' then x @ fill cs xs else a # fill (b # cs) (x # xs))"
| "fill cs xs = cs"

definition toy_str :: "pyval \<Rightarrow> string" where
  "toy_str v = (case v of PStr s \<Rightarrow> s | _ \<Rightarrow> ''?'')"

definition toy_method ::
  "pyval \<Rightarrow> string \<Rightarrow> pyval list \<Rightarrow> (string \<times> pyval) list
     \<Rightarrow> row list \<times> (string \<times> pyval) list
     \<Rightarrow> (error + pyval) \<times> (row list \<times> (string \<times> pyval) list)" where
  "toy_method h m pos kw w =
     (if m = ''select'' then
        (case query_conds pos kw of None \<Rightarrow> (Inl TypeError, w)
         | Some conds \<Rightarrow> (db_select (fst w) conds, w))
      else if m = ''get'' then
        (case query_conds pos kw of None \<Rightarrow> (Inl TypeError, w)
         | Some conds \<Rightarrow> (db_get (fst w) conds, w))
      else if m = ''alpha_CV'' then
        (Inr (PTuple [PArray [1 / 10 ^ 7, 1 / 1000, 1], PArray [5 / 100, 2 / 100, 9 / 100]]), w)
      else if m = ''get_eci_dict'' then (Inr toy_eci, w)
      else if m = ''save_eci'' then
        (case map_of kw ''fname'' of
           Some (PStr f) \<Rightarrow> (Inr PNone, (fst w, (f, toy_eci) # snd w))
         | _ \<Rightarrow> (Inl TypeError, w))
      else if m = ''__enter__'' then (Inr h, w)
      else if m = ''format'' then
        (case h of PStr t \<Rightarrow> (Inr (PStr (fill t (map toy_str pos))), w)
         | _ \<Rightarrow> (Inl TypeError, w))
      else (Inr PNone, w))"

definition toy_call ::
  "string \<Rightarrow> pyval list \<Rightarrow> (string \<times> pyval) list
     \<Rightarrow> row list \<times> (string \<times> pyval) list
     \<Rightarrow> (error + pyval) \<times> (row list \<times> (string \<times> pyval) list)" where
  "toy_call f pos kw w =
     (if f = ''update_db'' then
        (case map_of kw ''uid_initial'' of
           Some (PInt i) \<Rightarrow>
             (case update_db_rows (nat i) (- real_of_int i) (fst w) of
                Inl e \<Rightarrow> (Inl e, w)
              | Inr D \<Rightarrow> (Inr PNone, (D, snd w)))
         | _ \<Rightarrow> (Inl TypeError, w))
      else if f = ''open'' then
        (case pos of
           [PStr p] \<Rightarrow>
             (case map_of (snd w) p of
                None \<Rightarrow> (Inl (LibraryError ''FileNotFoundError''), w)
              | Some v \<Rightarrow> (Inr (PStr p), w))
         | _ \<Rightarrow> (Inl TypeError, w))
      else if f = ''json.load'' then
        (case pos of
           [PStr p] \<Rightarrow>
             (case map_of (snd w) p of
                None \<Rightarrow> (Inl ValueError, w)
              | Some v \<Rightarrow> (Inr v, w))
         | _ \<Rightarrow> (Inl TypeError, w))
      else (Inr PNone, w))"

definition toy_env :: "(row list \<times> (string \<times> pyval) list) env" where
  "toy_env c w =
     (case c of
        Method h m pos kw \<Rightarrow> toy_method h m pos kw w
      | Call f pos kw \<Rightarrow> toy_call f pos kw w
      | GetAttr v k \<Rightarrow> (case v of PRow r \<Rightarrow> (row_attr r k, w) | _ \<Rightarrow> (Inr PNone, w))
      | _ \<Rightarrow> (Inr PNone, w))"

text \<open>Rows as CLEASE writes them: a generated structure, and one already calculated.\<close>

definition generated :: "nat \<Rightarrow> string \<Rightarrow> string \<Rightarrow> nat \<Rightarrow> row" where
  "generated i fu nm n =
     \<lparr>row_id = i, natoms = n, energy = None, name = Some nm, formula_unit = Some fu,
      struct_type = Some ''initial'', gen = Some 0, converged = Some False,
      queued = Some False, started = Some False, final_struct_id = None\<rparr>"

definition relaxed :: "nat \<Rightarrow> string \<Rightarrow> string \<Rightarrow> nat \<Rightarrow> nat \<Rightarrow> row" where
  "relaxed i fu nm n fid =
     \<lparr>row_id = i, natoms = n, energy = None, name = Some nm, formula_unit = Some fu,
      struct_type = Some ''initial'', gen = Some 0, converged = Some True,
      queued = None, started = None, final_struct_id = Some fid\<rparr>"

definition final_row :: "nat \<Rightarrow> string \<Rightarrow> nat \<Rightarrow> real \<Rightarrow> row" where
  "final_row i nm n e =
     \<lparr>row_id = i, natoms = n, energy = Some e, name = Some nm, formula_unit = None,
      struct_type = Some ''final'', gen = None, converged = None,
      queued = None, started = None, final_struct_id = None\<rparr>"



text \<open>A database with a generated structure of Au3Cu1 and no structure of Au1Cu1.\<close>

definition db_no_Au1Cu1 :: "row list" where
  "db_no_Au1Cu1 = [generated 1 ''Au3Cu1'' ''Au3Cu1_0'' 4, generated 3 ''Au1Cu3'' ''Au1Cu3_0'' 4]"

text \<open>The formula units of cell 37, in the order the cell handles them.\<close>

definition formula_units :: "string list" where
  "formula_units = [''Au3Cu1'', ''Au1Cu1'', ''Au1Cu3'']"

text \<open>A database after the calculations that holds no structure of Au1Cu3.\<close>

definition db_no_Au1Cu3 :: "row list" where
  "db_no_Au1Cu3 =
     [relaxed 1 ''Au3Cu1'' ''Au3Cu1_0'' 4 5, relaxed 2 ''Au3Cu1'' ''Au3Cu1_1'' 8 6,
      relaxed 3 ''Au1Cu1'' ''Au1Cu1_0'' 2 7,
      final_row 5 ''Au3Cu1_0'' 4 (- 1), final_row 6 ''Au3Cu1_1'' 8 (- 4),
      final_row 7 ''Au1Cu1_0'' 2 (- 1)]"

subsection \<open>Properties of a run: failures, stages, files\<close>











subsection \<open>Properties of a cell as a program\<close>

text \<open>Every call a program makes, from any state, satisfies \<open>ok\<close>.\<close>

definition calls_ok :: "(call \<Rightarrow> bool) \<Rightarrow> ('w, 'a) nb \<Rightarrow> bool" where
  "calls_ok ok m \<longleftrightarrow>
     (\<forall>s. \<exists>evs. snd (snd (m s)) = snd s @ evs \<and> list_all (\<lambda>ev. ok (fst ev)) evs)"






subsection \<open>A run from a fresh kernel\<close>



definition world_after :: "('w, 'a) nb \<Rightarrow> 'w \<Rightarrow> 'w" where
  "world_after m w = fst (snd (m (w, [])))"

text \<open>
  The database CLEASE leaves after cells 7 to 16, reduced to four entries: the primitive
  cell and one generated structure for each of Au3Cu1, Au1Cu1 and Au1Cu3.
\<close>

definition db_start :: "row list" where
  "db_start =
     [\<lparr>row_id = 1, natoms = 1, energy = None, name = Some ''primitive_cell'',
       formula_unit = None, struct_type = None, gen = None, converged = None,
       queued = None, started = None, final_struct_id = None\<rparr>,
      generated 2 ''Au3Cu1'' ''Au3Cu1_0'' 4, generated 3 ''Au1Cu1'' ''Au1Cu1_0'' 2,
      generated 4 ''Au1Cu3'' ''Au1Cu3_0'' 4]"

text \<open>The calls made between a state and a later one.\<close>

definition new_calls :: "'w \<times> event list \<Rightarrow> 'w \<times> event list \<Rightarrow> event list" where
  "new_calls s s' = drop (length (snd s)) (snd s')"

subsection \<open>What the claims say of the calls of a cell\<close>

text \<open>
  The evaluation stage (cell 25), as a statement about the calls \<open>evs\<close> it makes: after the
  scan of 50 strengths between \<open>1E-7\<close> and \<open>1.0\<close> with 10-fold cross-validation has answered
  with \<^verbatim>\<open>alphas\<close> and \<^verbatim>\<open>cvs\<close>, the model is given the \<^verbatim>\<open>alpha\<close> at an index \<open>i\<close> where the
  cross-validation score is least, it is fitted, and then the coefficients are read,
  plotted, printed and saved.
\<close>

definition fits_with_best_alpha :: "pyval \<Rightarrow> pyval \<Rightarrow> event list \<Rightarrow> bool" where
  "fits_with_best_alpha settings eva evs \<longleftrightarrow>
     (\<exists>scan alphas_array alphas cvs i alpha eci_dict.
        i = argmin_index cvs \<and>
        map fst evs =
          [Magic ''matplotlib notebook'', Import ''clease'' [''Evaluate''],
           Import ''clease.plot_post_process'' [], Import ''pprint'' [''pprint''],
           Call ''Evaluate'' []
             [(''settings'', settings), (''fitting_scheme'', PStr ''l1''),
              (''scoring_scheme'', PStr ''k-fold''), (''nsplits'', PInt 10)],
           Method eva ''alpha_CV'' []
             [(''alpha_min'', PFloat (1 / 10 ^ 7)), (''alpha_max'', PFloat 1),
              (''num_alpha'', PInt 50)],
           Call ''pp.plot_cv'' [eva] [],
           Method eva ''set_fitting_scheme'' []
             [(''fitting_scheme'', PStr ''l1''), (''alpha'', alpha)],
           Method eva ''fit'' [] [], Method eva ''get_eci'' [] [],
           Call ''pp.plot_fit'' [eva] [], Call ''pp.plot_convex_hull'' [eva] [],
           Call ''pp.plot_eci'' [eva] [], Method eva ''get_eci_dict'' [] [],
           Call ''pprint'' [eci_dict] [],
           Method eva ''save_eci'' [] [(''fname'', PStr ''cluster_name_eci_l1.json'')]] \<and>
        snd (evs ! 5) = Inr scan \<and>
        py_items scan = Some [alphas_array, PArray cvs] \<and>
        py_items alphas_array = Some alphas \<and>
        i < length cvs \<and> (\<forall>j < length cvs. cvs ! i \<le> cvs ! j) \<and>
        i < length alphas \<and> alpha = alphas ! i)"


section \<open>Running the monad\<close>

lemma bnd_apply: "bnd m f s = (case m s of (Inl e, s') \<Rightarrow> (Inl e, s') | (Inr x, s') \<Rightarrow> f x s')"
  by (simp add: bnd_def)

lemma seq_apply: "seq m n s = (case m s of (Inl e, s') \<Rightarrow> (Inl e, s') | (Inr x, s') \<Rightarrow> n s')"
  by (simp add: seq_def bnd_def)

lemma ext_apply: "ext env c (w, tr) = (fst (env c w), (snd (env c w), tr @ [(c, fst (env c w))]))"
  by (simp add: ext_def split: prod.splits)

lemma ret_apply: "ret x s = (Inr x, s)" by (simp add: ret_def)
lemma raise_apply: "raise e s = (Inl e, s)" by (simp add: raise_def)

lemmas nb_apply = bnd_apply seq_apply ext_apply ret_apply raise_apply

subsection \<open>Rules for the calls a program makes\<close>











lemma calls_ok_if: "calls_ok ok m \<Longrightarrow> calls_ok ok n \<Longrightarrow> calls_ok ok (if b then m else n)"
  by simp





subsection \<open>Rules for the stages of a program\<close>

















subsection \<open>Rules for programs that handle no failure\<close>


lemma dropWhile_all_Nil: "list_all P xs \<Longrightarrow> dropWhile P xs = []"
  by (induction xs) auto



















subsection \<open>The selection cell under the database contract\<close>

lemma ase_db_attr:
  assumes "ase_db env dbof"
  shows "fst (env (GetAttr (PRow r) k) w) = row_attr r k"
    and "dbof (snd (env (GetAttr (PRow r) k) w)) = dbof w"
  using assms by (simp_all add: ase_db_def)

lemma ase_db_query:
  assumes "ase_db env dbof" "query_conds pos kw = Some conds"
  shows "fst (env (Method h ''select'' pos kw) w) = db_select (dbof w) conds"
    and "dbof (snd (env (Method h ''select'' pos kw) w)) = dbof w"
    and "fst (env (Method h ''get'' pos kw) w) = db_get (dbof w) conds"
    and "dbof (snd (env (Method h ''get'' pos kw) w)) = dbof w"
  using assms unfolding ase_db_def by blast+

lemma query_conds_kw: "query_conds [] kw = Some kw"
  by (simp add: query_conds_def)

lemma filter_id: "filter (row_matches [(''id'', PInt (int i))]) D = filter (\<lambda>x. row_id x = i) D"
  by (rule filter_cong) (auto simp: row_matches_def row_key_def)

lemma entry_calculated:
  assumes db: "ase_db env dbof" and calc: "calculated (dbof w) r"
  shows "fst (energy_per_atom_entry env db (PRow r) acc (w, tr)) = Inr (acc @ [entry_of (dbof w) r])"
proof -
  from calc obtain n e where nm: "name r = Some n" and epa: "energy_per_atom (dbof w) r = Some e"
    by (auto simp: calculated_def)
  from epa obtain fid f e0 where fid: "final_struct_id r = Some fid"
    and f: "filter (\<lambda>x. row_id x = fid) (dbof w) = [f]" and e0: "energy f = Some e0"
    and n0: "natoms r \<noteq> 0" and e: "e = e0 / real (natoms r)"
    by (auto simp: energy_per_atom_def final_energy_def split: option.splits list.splits if_splits)
  note facts = ase_db_attr[OF db] ase_db_query[OF db query_conds_kw]
  show ?thesis
    using fid f e0 n0 e nm epa
    by (simp add: energy_per_atom_entry_def nb_apply facts entry_of_def
        row_attr_def row_key_def db_get_def filter_id py_truediv_def py_number_def)
qed

lemma entry_keeps_db:
  assumes db: "ase_db env dbof"
  shows "dbof (fst (snd (energy_per_atom_entry env db (PRow r) acc (w, tr)))) = dbof w"
proof -
  note facts = ase_db_attr[OF db] ase_db_query[OF db query_conds_kw]
  show ?thesis
    by (simp add: energy_per_atom_entry_def nb_apply facts row_attr_def db_get_def
        py_truediv_def split: option.splits list.splits sum.splits)
qed

lemma loop_keeps_db:
  assumes db: "ase_db env dbof"
  shows "dbof (fst (snd (for_acc (map PRow rs) (energy_per_atom_entry env db) acc (w, tr)))) = dbof w"
proof (induction rs arbitrary: acc w tr)
  case Nil
  show ?case by (simp add: ret_apply)
next
  case (Cons r rs)
  obtain x w1 tr1 where step: "energy_per_atom_entry env db (PRow r) acc (w, tr) = (x, (w1, tr1))"
    by (metis prod.exhaust)
  have w1: "dbof w1 = dbof w"
    using entry_keeps_db[OF db, of db r acc w tr] step by simp
  show ?case
    using w1 Cons.IH by (cases x) (simp_all add: bnd_apply step)
qed

lemma loop_calculated:
  assumes db: "ase_db env dbof" and calc: "\<forall>r \<in> set rs. calculated (dbof w) r"
  shows "fst (for_acc (map PRow rs) (energy_per_atom_entry env db) acc (w, tr))
           = Inr (acc @ map (entry_of (dbof w)) rs)"
  using calc
proof (induction rs arbitrary: acc w tr)
  case Nil
  show ?case by (simp add: ret_apply)
next
  case (Cons r rs)
  obtain x w1 tr1 where step: "energy_per_atom_entry env db (PRow r) acc (w, tr) = (x, (w1, tr1))"
    by (metis prod.exhaust)
  have w1: "dbof w1 = dbof w"
    using entry_keeps_db[OF db, of db r acc w tr] step by simp
  have x: "x = Inr (acc @ [entry_of (dbof w) r])"
    using entry_calculated[OF db, of w r db acc tr] Cons.prems step by simp
  show ?case
    using Cons.IH[of w1 "acc @ [entry_of (dbof w) r]" tr1] Cons.prems w1
    by (simp add: bnd_apply step x)
qed


lemma filter_initial:
  "filter (row_matches [(''formula_unit'', PStr fu), (''struct_type'', PStr ''initial'')]) D
     = initial_rows D fu"
  unfolding initial_rows_def
  by (rule filter_cong) (auto simp: row_matches_def row_key_def)

lemma select_initial:
  assumes db: "ase_db env dbof"
    and q: "parse_query q = [(''formula_unit'', PStr fu), (''struct_type'', PStr ''initial'')]"
  shows "fst (env (Method h ''select'' [PStr q] []) w)
           = Inr (PList (map PRow (initial_rows (dbof w) fu)))"
    and "dbof (snd (env (Method h ''select'' [PStr q] []) w)) = dbof w"
  using ase_db_query[OF db, of "[PStr q]" "[]"] q
  by (simp_all add: db_select_def filter_initial query_conds_def)

lemma hd_sort_key_least:
  fixes f :: "'a \<Rightarrow> real"
  assumes "xs \<noteq> []"
  shows "hd (sort_key f xs) \<in> set xs" and "\<forall>y \<in> set xs. f (hd (sort_key f xs)) \<le> f y"
proof -
  obtain z zs where z: "sort_key f xs = z # zs"
    using assms by (cases "sort_key f xs") (auto dest: arg_cong[where f = length])
  have "set (z # zs) = set xs" using z by (metis set_sort)
  moreover have "sorted (map f (z # zs))" using z by (metis sorted_sort_key)
  ultimately show "hd (sort_key f xs) \<in> set xs" and "\<forall>y \<in> set xs. f (hd (sort_key f xs)) \<le> f y"
    using z by auto
qed

lemma py_first_apply: "py_first xs s = (case xs of [] \<Rightarrow> (Inl IndexError, s) | x # _ \<Rightarrow> (Inr x, s))"
  by (simp add: py_first_def ret_apply raise_apply split: list.splits)

lemma py_iter_list: "py_iter (PList xs) s = (Inr xs, s)"
  by (simp add: py_iter_def py_items_def ret_apply)

lemma min_energy_name_keeps_db:
  assumes db: "ase_db env dbof"
    and q: "parse_query q = [(''formula_unit'', PStr fu), (''struct_type'', PStr ''initial'')]"
  shows "dbof (fst (snd (min_energy_name env db q (w, tr)))) = dbof w"
proof -
  let ?rows = "initial_rows (dbof w) fu"
  let ?sel = "Method db ''select'' [PStr q] []"
  obtain x w1 tr1 where loop:
    "for_acc (map PRow ?rows) (energy_per_atom_entry env db) []
       (snd (env ?sel w), tr @ [(?sel, Inr (PList (map PRow ?rows)))]) = (x, (w1, tr1))"
    by (metis prod.exhaust)
  have "dbof w1 = dbof w"
    using loop_keeps_db[OF db, where db = db and rs = ?rows and acc = "[]"
        and w = "snd (env ?sel w)" and tr = "tr @ [(?sel, Inr (PList (map PRow ?rows)))]"]
      select_initial(2)[OF db q, of db w] loop
    by simp
  then show ?thesis
    using select_initial(1)[OF db q, of db w]
    by (simp add: min_energy_name_def nb_apply py_iter_list py_first_apply loop
        split: sum.splits list.splits)
qed

lemma min_energy_name_empty:
  assumes db: "ase_db env dbof"
    and q: "parse_query q = [(''formula_unit'', PStr fu), (''struct_type'', PStr ''initial'')]"
    and none: "initial_rows (dbof w) fu = []"
  shows "fst (min_energy_name env db q (w, tr)) = Inl IndexError"
  using select_initial[OF db q, of db w] none
  by (simp add: min_energy_name_def nb_apply py_iter_list py_first_apply)

lemma min_energy_name_lowest:
  assumes db: "ase_db env dbof"
    and q: "parse_query q = [(''formula_unit'', PStr fu), (''struct_type'', PStr ''initial'')]"
    and some: "initial_rows (dbof w) fu \<noteq> []"
    and calc: "\<forall>r \<in> set (initial_rows (dbof w) fu). calculated (dbof w) r"
  shows "\<exists>r n. fst (min_energy_name env db q (w, tr)) = Inr (PStr n) \<and> name r = Some n
            \<and> lowest (dbof w) fu r"
proof -
  let ?D = "dbof w"
  let ?rows = "initial_rows ?D fu"
  let ?es = "map (entry_of ?D) ?rows"
  let ?sel = "Method db ''select'' [PStr q] []"
  have es: "?es \<noteq> []" using some by simp
  obtain x w1 tr1 where loop:
    "for_acc (map PRow ?rows) (energy_per_atom_entry env db) []
       (snd (env ?sel w), tr @ [(?sel, Inr (PList (map PRow ?rows)))]) = (x, (w1, tr1))"
    by (metis prod.exhaust)
  have x: "x = Inr ?es"
    using loop_calculated[OF db, where rs = ?rows and db = db and acc = "[]"
        and w = "snd (env ?sel w)" and tr = "tr @ [(?sel, Inr (PList (map PRow ?rows)))]"]
      calc select_initial(2)[OF db q, of db w] loop
    by simp
  have ne: "sort_key snd ?es \<noteq> []"
    using es by (metis length_0_conv length_sort)
  have res: "fst (min_energy_name env db q (w, tr)) = Inr (fst (hd (sort_key snd ?es)))"
    using select_initial(1)[OF db q, of db w] ne
    by (simp add: min_energy_name_def nb_apply py_iter_list py_first_apply loop x
        split: list.splits)
  from hd_sort_key_least[OF es, of snd]
  obtain r where r: "r \<in> set ?rows" and hd: "hd (sort_key snd ?es) = entry_of ?D r"
    and least: "\<forall>y \<in> set ?es. snd (entry_of ?D r) \<le> snd y"
    by auto
  from calc r obtain n e where n: "name r = Some n" and e: "energy_per_atom ?D r = Some e"
    by (auto simp: calculated_def)
  have "lowest ?D fu r"
    unfolding lowest_def
  proof (intro conjI exI[of _ e] ballI allI impI)
    show "r \<in> set ?rows" by (rule r)
    show "energy_per_atom ?D r = Some e" by (rule e)
  next
    fix r' e' assume r': "r' \<in> set ?rows" and e': "energy_per_atom ?D r' = Some e'"
    from least r' have "snd (entry_of ?D r) \<le> snd (entry_of ?D r')" by simp
    then show "e \<le> e'" using e e' by (simp add: entry_of_def)
  qed
  moreover have "fst (min_energy_name env db q (w, tr)) = Inr (PStr n)"
    using res hd n by (simp add: entry_of_def)
  ultimately show ?thesis using n by blast
qed

lemma parse_Au3Cu1: "parse_query ''formula_unit=Au3Cu1,struct_type=initial''
    = [(''formula_unit'', PStr ''Au3Cu1''), (''struct_type'', PStr ''initial'')]"
  by (simp add: parse_query_def)

lemma parse_Au1Cu1: "parse_query ''formula_unit=Au1Cu1,struct_type=initial''
    = [(''formula_unit'', PStr ''Au1Cu1''), (''struct_type'', PStr ''initial'')]"
  by (simp add: parse_query_def)

lemma parse_Au1Cu3: "parse_query ''formula_unit=Au1Cu3,struct_type=initial''
    = [(''formula_unit'', PStr ''Au1Cu3''), (''struct_type'', PStr ''initial'')]"
  by (simp add: parse_query_def)

lemma toy_env_ase_db: "ase_db toy_env fst"
  by (simp add: ase_db_def toy_env_def toy_method_def)

lemma min_energy_names_apply:
  "min_energy_names env db s =
     (case min_energy_name env db ''formula_unit=Au3Cu1,struct_type=initial'' s of
        (Inl e, s1) \<Rightarrow> (Inl e, s1)
      | (Inr n1, s1) \<Rightarrow>
          (case min_energy_name env db ''formula_unit=Au1Cu1,struct_type=initial'' s1 of
             (Inl e, s2) \<Rightarrow> (Inl e, s2)
           | (Inr n2, s2) \<Rightarrow>
               (case min_energy_name env db ''formula_unit=Au1Cu3,struct_type=initial'' s2 of
                  (Inl e, s3) \<Rightarrow> (Inl e, s3)
                | (Inr n3, s3) \<Rightarrow> (Inr [n1, n2, n3], s3))))"
  by (simp add: min_energy_names_def bnd_apply ret_apply split: prod.splits sum.splits)





lemma cell_37_fails:
  assumes "fst (min_energy_names env db s) = Inl e"
  shows "fst (cell_37 env db s) = Inl e"
  using assms by (cases "min_energy_names env db s") (simp add: cell_37_def bnd_apply)

lemma min_energy_names_missing:
  assumes db: "ase_db env dbof" and fu: "fu \<in> set formula_units"
    and none: "initial_rows (dbof w) fu = []"
  shows "\<exists>e. fst (min_energy_names env db (w, tr)) = Inl e"
    and "\<forall>f \<in> set (takeWhile (\<lambda>f. f \<noteq> fu) formula_units).
           \<forall>r \<in> set (initial_rows (dbof w) f). calculated (dbof w) r
         \<Longrightarrow> fst (min_energy_names env db (w, tr)) = Inl IndexError"
proof -
  let ?q1 = "''formula_unit=Au3Cu1,struct_type=initial''"
  let ?q2 = "''formula_unit=Au1Cu1,struct_type=initial''"
  let ?q3 = "''formula_unit=Au1Cu3,struct_type=initial''"
  obtain x1 w1 tr1 where s1: "min_energy_name env db ?q1 (w, tr) = (x1, (w1, tr1))"
    by (metis prod.exhaust)
  obtain x2 w2 tr2 where s2: "min_energy_name env db ?q2 (w1, tr1) = (x2, (w2, tr2))"
    by (metis prod.exhaust)
  obtain x3 w3 tr3 where s3: "min_energy_name env db ?q3 (w2, tr2) = (x3, (w3, tr3))"
    by (metis prod.exhaust)
  have w1: "dbof w1 = dbof w"
    using min_energy_name_keeps_db[OF db parse_Au3Cu1, of db w tr] s1 by simp
  have w2: "dbof w2 = dbof w"
    using min_energy_name_keeps_db[OF db parse_Au1Cu1, of db w1 tr1] s2 w1 by simp
  have e1: "initial_rows (dbof w) ''Au3Cu1'' = [] \<Longrightarrow> x1 = Inl IndexError"
    using min_energy_name_empty[OF db parse_Au3Cu1, of w db tr] s1 by simp
  have e2: "initial_rows (dbof w) ''Au1Cu1'' = [] \<Longrightarrow> x2 = Inl IndexError"
    using min_energy_name_empty[OF db parse_Au1Cu1, of w1 db tr1] s2 w1 by simp
  have e3: "initial_rows (dbof w) ''Au1Cu3'' = [] \<Longrightarrow> x3 = Inl IndexError"
    using min_energy_name_empty[OF db parse_Au1Cu3, of w2 db tr2] s3 w2 by simp
  have c1: "\<forall>r \<in> set (initial_rows (dbof w) ''Au3Cu1''). calculated (dbof w) r
      \<Longrightarrow> x1 = Inl IndexError \<or> (\<exists>n. x1 = Inr n)"
    using min_energy_name_lowest[OF db parse_Au3Cu1, of w db tr] e1 s1
    by (cases "initial_rows (dbof w) ''Au3Cu1'' = []") auto
  have c2: "\<forall>r \<in> set (initial_rows (dbof w) ''Au1Cu1''). calculated (dbof w) r
      \<Longrightarrow> x2 = Inl IndexError \<or> (\<exists>n. x2 = Inr n)"
    using min_energy_name_lowest[OF db parse_Au1Cu1, of w1 db tr1] e2 s2 w1
    by (cases "initial_rows (dbof w) ''Au1Cu1'' = []") auto
  from fu none show "\<exists>e. fst (min_energy_names env db (w, tr)) = Inl e"
    using e1 e2 e3
    by (cases x1; cases x2; cases x3)
      (auto simp: min_energy_names_apply s1 s2 s3 formula_units_def)
  assume "\<forall>f \<in> set (takeWhile (\<lambda>f. f \<noteq> fu) formula_units).
           \<forall>r \<in> set (initial_rows (dbof w) f). calculated (dbof w) r"
  with fu none show "fst (min_energy_names env db (w, tr)) = Inl IndexError"
    using e1 e2 e3 c1 c2
    by (cases x1; cases x2; cases x3)
      (auto simp: min_energy_names_apply s1 s2 s3 formula_units_def)
qed

text \<open>
  C10 (as amended). Under the database contract, when the database holds no row with
  \<^verbatim>\<open>struct_type=initial\<close> for one of Au3Cu1, Au1Cu1 and Au1Cu3, the selection cell fails:
  it neither skips the formula unit nor returns a list of names. When every row the cell
  reads for the formula units before the missing one has a name and an energy per atom,
  the failure is the \<^verbatim>\<open>IndexError\<close> of taking element 0 of the empty sorted list.
\<close>

theorem cell_37_missing_formula_unit:
  assumes db: "ase_db env dbof" and fu: "fu \<in> set formula_units"
    and none: "initial_rows (dbof w) fu = []"
  shows "(\<exists>e. fst (cell_37 env db (w, tr)) = Inl e) \<and>
         ((\<forall>f \<in> set (takeWhile (\<lambda>f. f \<noteq> fu) formula_units).
             \<forall>r \<in> set (initial_rows (dbof w) f). calculated (dbof w) r)
          \<longrightarrow> fst (cell_37 env db (w, tr)) = Inl IndexError)"
  using min_energy_names_missing[OF db fu none, of db tr] cell_37_fails[of env db "(w, tr)"]
  by blast

theorem cell_37_missing_formula_unit_witness:
  "ase_db toy_env fst \<and> ''Au1Cu3'' \<in> set formula_units \<and>
   initial_rows db_no_Au1Cu3 ''Au1Cu3'' = [] \<and>
   list_all (\<lambda>f. list_all (calculated db_no_Au1Cu3) (initial_rows db_no_Au1Cu3 f))
      (takeWhile (\<lambda>f. f \<noteq> ''Au1Cu3'') formula_units) \<and>
   fst (cell_37 toy_env (PObj 0) ((db_no_Au1Cu3, []), [])) = Inl IndexError"
proof -
  have fu: "''Au1Cu3'' \<in> set formula_units" by (simp add: formula_units_def)
  have none: "initial_rows (fst (db_no_Au1Cu3, [])) ''Au1Cu3'' = []" by code_simp
  have calc: "list_all (\<lambda>f. list_all (calculated db_no_Au1Cu3) (initial_rows db_no_Au1Cu3 f))
      (takeWhile (\<lambda>f. f \<noteq> ''Au1Cu3'') formula_units)"
    by code_simp
  then have calc': "\<forall>f \<in> set (takeWhile (\<lambda>f. f \<noteq> ''Au1Cu3'') formula_units).
      \<forall>r \<in> set (initial_rows (fst (db_no_Au1Cu3, [])) f). calculated (fst (db_no_Au1Cu3, [])) r"
    by (simp add: list_all_iff)
  have "fst (cell_37 toy_env (PObj 0) ((db_no_Au1Cu3, []), [])) = Inl IndexError"
    using cell_37_missing_formula_unit[OF toy_env_ase_db fu none, of "PObj 0" "[]"] calc'
    by blast
  with toy_env_ase_db fu none calc show ?thesis by simp
qed

text \<open>
  C10 as stated fails: the failure need not be the index error. With a generated, not yet
  calculated structure of Au3Cu1 and no structure of Au1Cu1, the cell raises
  \<^verbatim>\<open>AttributeError\<close> on \<^verbatim>\<open>row.final_struct_id\<close> in the first loop, before it reaches the
  empty list of Au1Cu1.
\<close>

theorem cell_37_missing_not_index_error:
  "initial_rows db_no_Au1Cu1 ''Au1Cu1'' = [] \<and>
   fst (cell_37 toy_env (PObj 0) ((db_no_Au1Cu1, []), [])) = Inl AttributeError"
  by code_simp
subsection \<open>The stages of the cells and of the notebook\<close>




















subsection \<open>No cell handles a failure\<close>




















section \<open>The claims about the whole notebook\<close>









subsection \<open>Stepping through a run that returned\<close>

lemma bnd_InrE:
  assumes "bnd m f s = (Inr y, s')"
  obtains x s1 where "m s = (Inr x, s1)" "f x s1 = (Inr y, s')"
  using assms by (auto simp: bnd_apply split: prod.splits sum.splits)

lemma seq_InrE:
  assumes "seq m n s = (Inr y, s')"
  obtains x s1 where "m s = (Inr x, s1)" "n s1 = (Inr y, s')"
  using assms by (auto simp: seq_apply split: prod.splits sum.splits)

lemma ext_InrE:
  assumes "ext env c s = (Inr v, s')"
  obtains w' where "env c (fst s) = (Inr v, w')" "s' = (w', snd s @ [(c, Inr v)])"
  using assms by (cases s; cases "env c (fst s)") (auto simp: ext_apply)

lemma ret_InrE:
  assumes "ret x s = (Inr y, s')"
  obtains "y = x" "s' = s"
  using assms by (auto simp: ret_apply)

lemma py_unpack2_InrE:
  assumes "py_unpack2 v s = (Inr p, s')"
  obtains "py_items v = Some [fst p, snd p]" "s' = s"
  using assms
  by (auto simp: py_unpack2_def ret_apply raise_apply split: option.splits list.splits)

lemma np_argmin_InrE:
  assumes "np_argmin a s = (Inr i, s')"
  obtains xs where "a = PArray xs" "xs \<noteq> []" "i = argmin_index xs" "s' = s"
  using assms
  by (auto simp: np_argmin_def ret_apply raise_apply split: pyval.splits if_splits)

lemma py_index_InrE:
  assumes "py_index a i s = (Inr v, s')"
  obtains xs where "py_items a = Some xs" "i < length xs" "v = xs ! i" "s' = s"
  using assms
  by (auto simp: py_index_def ret_apply raise_apply split: option.splits if_splits)

lemmas run_elims = bnd_InrE seq_InrE ext_InrE ret_InrE py_unpack2_InrE np_argmin_InrE py_index_InrE

lemma takeWhile_stops: "x \<in> set xs \<Longrightarrow> \<not> P x \<Longrightarrow> length (takeWhile P xs) < length xs"
  by (induction xs) auto

lemma argmin_index_least:
  assumes "xs \<noteq> []"
  shows "argmin_index xs < length xs" and "\<forall>j < length xs. xs ! argmin_index xs \<le> xs ! j"
proof -
  let ?m = "Min (set xs)"
  have m: "?m \<in> set xs" using assms by (simp add: Min_in)
  show lt: "argmin_index xs < length xs"
    unfolding argmin_index_def by (rule takeWhile_stops[OF m]) simp
  then have "xs ! argmin_index xs = ?m"
    unfolding argmin_index_def using nth_length_takeWhile[of "\<lambda>x. x \<noteq> ?m" xs] by simp
  then show "\<forall>j < length xs. xs ! argmin_index xs \<le> xs ! j"
    by simp
qed


section \<open>The claims about single cells\<close>

text \<open>
  C3. When the evaluation cell returns, it has scanned 50 regularisation strengths between
  \<open>1E-7\<close> and \<open>1.0\<close> with 10-fold cross-validation, has set the model's \<^verbatim>\<open>alpha\<close> to the
  scanned value at the index \<^verbatim>\<open>cvs.argmin()\<close>, an index of a least cross-validation score,
  and has fitted the model with it before reading, plotting, printing and saving the
  coefficients.
\<close>

theorem evaluation_fits_with_best_alpha:
  assumes "cell_25 env settings s = (Inr eva, s')"
  shows "fits_with_best_alpha settings eva (new_calls s s')"
  using assms unfolding cell_25_def case_prod_beta fits_with_best_alpha_def
  by (elim run_elims) (auto simp: new_calls_def argmin_index_least)

theorem evaluation_fits_with_best_alpha_witness:
  "fst (cell_25 toy_env PNone ((db_start, []), [])) = Inr PNone \<and>
   fits_with_best_alpha PNone PNone
     (new_calls ((db_start, []), []) (snd (cell_25 toy_env PNone ((db_start, []), []))))"
proof -
  have run: "fst (cell_25 toy_env PNone ((db_start, []), [])) = Inr PNone"
    by code_simp
  then have "cell_25 toy_env PNone ((db_start, []), [])
      = (Inr PNone, snd (cell_25 toy_env PNone ((db_start, []), [])))"
    by (metis prod.collapse)
  from evaluation_fits_with_best_alpha[OF this] run show ?thesis by simp
qed
subsection \<open>The files the cells name\<close>
























subsection \<open>The templates in a run of the notebook\<close>

lemma calls_ok_new_calls:
  assumes "calls_ok ok m" and "m s = (r, s')"
  shows "snd s' = snd s @ new_calls s s'"
proof -
  from assms obtain evs where "snd s' = snd s @ evs"
    unfolding calls_ok_def by (metis snd_conv)
  then show ?thesis by (simp add: new_calls_def)
qed

lemma calls_ok_grows:
  assumes "calls_ok ok m" and "m s = (r, s')"
  shows "set (snd s) \<subseteq> set (snd s')"
  using calls_ok_new_calls[OF assms] by (metis Un_upper1 set_append)













end
